theory Spec2Isabelle
  imports Complex_Main
begin

section \<open>Python values and exceptions\<close>

text \<open>
  The values that reach the trainer dynamically (hyperparameter suggestions, dataset
  cells). A Python float is modelled by the real number it denotes (NaN and the
  infinities are outside the model); every operation on floats that rounds is taken from
  the environment record below, comparisons and \<open>math.ceil\<close> are exact.
\<close>

datatype pyval =
    PNone
  | PBool bool
  | PInt int
  | PFloat real
  | PStr string
  | PDict "(string \<times> pyval) list"

type_synonym params = "(string \<times> pyval) list"

text \<open>Python's truth value of an object: \<open>bool(v)\<close>, also what \<open>or\<close> and \<open>if\<close> test.\<close>

fun truthy :: "pyval \<Rightarrow> bool" where
  "truthy PNone = False"
| "truthy (PBool b) = b"
| "truthy (PInt i) = (i \<noteq> 0)"
| "truthy (PFloat f) = (f \<noteq> 0)"
| "truthy (PStr s) = (s \<noteq> [])"
| "truthy (PDict d) = (d \<noteq> [])"

text \<open>
  One constructor of \<open>reason\<close> per \<open>raise\<close> statement of trainer.py; \<open>Msg\<close> is the text of
  an exception raised by the interpreter or by a library. \<open>Unmodelled\<close> is not a Python
  exception: it marks a run that depends on library behaviour this model does not
  describe.
\<close>

datatype reason =
    WarmupProportionRange real
  | ModelOrModelInitRequired
  | ModelAndModelInitBoth
  | DatasetDictTrainSplit
  | DatasetDictSplits "string set"
  | RequiredColumnsMissing "string set"
  | MappingTargetsMissing "string set"
  | MappingSourcesMissing "string set" "string set"
  | InvalidTrialParameter
  | ModelInitArity
  | ModelInitReturnedNone
  | DifferentiableHeadRequired
  | TrainDatasetRequired
  | MetricMustBeStrOrCallable
  | OptunaShouldBeInstalled
  | OptunaPickedNotInstalled
  | OnlyOptunaSupported
  | SearchNeedsModelInit
  | RepoIdNotFull
  | Msg string

datatype error =
    ValueError reason
  | RuntimeError reason
  | TypeError reason
  | KeyError reason
  | AttributeError reason
  | Unmodelled string

text \<open>
  The split names an exception's message shows: the message of line 160 contains the
  literal \<open>['train']\<close>, the message of line 165 interpolates \<open>sorted(column_names)\<close>.
\<close>

fun splits_in_message :: "error \<Rightarrow> string set option" where
  "splits_in_message (ValueError DatasetDictTrainSplit) = Some {''train''}"
| "splits_in_message (ValueError (DatasetDictSplits names)) = Some names"
| "splits_in_message _ = None"

section \<open>The dataset collaborator\<close>

text \<open>
  A \<open>Dataset\<close> is a table addressed by column name; a \<open>DatasetDict\<close> maps split names to
  tables. For a \<open>DatasetDict\<close>, \<open>column_names\<close> is a dict keyed by split name, so
  \<open>set(dataset.column_names)\<close> is the set of split names.
\<close>

type_synonym table = "(string \<times> pyval list) list"

datatype dataset = Dataset table | DatasetDict "(string \<times> table) list"

fun column_names :: "dataset \<Rightarrow> string list" where
  "column_names (Dataset t) = map fst t"
| "column_names (DatasetDict d) = map fst d"

fun isinstance_DatasetDict :: "dataset \<Rightarrow> bool" where
  "isinstance_DatasetDict (Dataset t) = False"
| "isinstance_DatasetDict (DatasetDict d) = True"



text \<open>
  \<open>dataset[name]\<close>. Indexing \<open>None\<close> raises TypeError, a missing column or split raises
  KeyError. Indexing a \<open>DatasetDict\<close> by an existing split name returns that split, which
  the rest of \<open>train\<close> would then treat as a column: that run is left unmodelled.
\<close>

fun getitem :: "dataset option \<Rightarrow> string \<Rightarrow> error + pyval list" where
  "getitem None name = Inl (TypeError (Msg ''NoneType object is not subscriptable''))"
| "getitem (Some (Dataset t)) name =
     (case map_of t name of None \<Rightarrow> Inl (KeyError (Msg name)) | Some vs \<Rightarrow> Inr vs)"
| "getitem (Some (DatasetDict d)) name =
     (case map_of d name of
        None \<Rightarrow> Inl (KeyError (Msg name))
      | Some t \<Rightarrow> Inl (Unmodelled ''a split used as a column''))"

text \<open>
  \<open>Dataset.rename_columns\<close> (library contract): the original names must be columns, the
  new names must be pairwise different and not empty.
\<close>

definition rename_columns :: "table \<Rightarrow> (string \<times> string) list \<Rightarrow> error + table" where
  "rename_columns t m =
     (if \<not> set (map fst m) \<subseteq> set (map fst t)
        then Inl (ValueError (Msg ''Original column names not in the dataset''))
      else if \<not> distinct (map snd m)
        then Inl (ValueError (Msg ''New column names must all be different''))
      else if [] \<in> set (map snd m)
        then Inl (ValueError (Msg ''New column names are empty''))
      else Inr (map (\<lambda>(c, vs). (case map_of m c of None \<Rightarrow> c | Some c' \<Rightarrow> c', vs)) t))"

section \<open>The model collaborator\<close>

text \<open>
  Modelled from the spec: the model class (setfit/modeling.py) is not part of the source.
  The spec gives it a capability flag \<open>has_differentiable_head\<close>, an optional
  \<open>multi_target_strategy\<close>, and \<open>freeze(part)\<close>/\<open>unfreeze(part)\<close> for part in {head, body}
  acting on two independent boolean switches.
\<close>

record setfit_model =
  has_differentiable_head :: bool
  multi_target_strategy :: "string option"
  head_frozen :: bool
  body_frozen :: bool



text \<open>
  A \<open>model_init\<close> callable: what \<open>number_of_arguments\<close> reports for it, and what calling it
  with no argument and with one argument does (it can raise, and it can return \<open>None\<close>).
\<close>

record model_init_fn =
  number_of_arguments :: nat
  call0 :: "error + setfit_model option"
  call1 :: "params option \<Rightarrow> error + setfit_model option"

section \<open>The trainer\<close>

datatype metric =
    MetricName string
  | MetricCallable "pyval list \<Rightarrow> pyval list \<Rightarrow> (string \<times> real) list"
  | MetricOther pyval

datatype loss_class =
    CosineSimilarityLoss
  | BatchAllTripletLoss
  | BatchHardTripletLoss
  | BatchSemiHardTripletLoss
  | BatchHardSoftMarginTripletLoss
  | SupConLoss
  | OtherLoss string

datatype distance_fn = CosineDistance | OtherDistance string

datatype backend = OPTUNA | RAY | SIGOPT | WANDB

datatype log_entry =
    TrainEntry int int int real real
  | TestEntry int real

record history =
  h_train :: "log_entry list"
  h_test :: "log_entry list"

text \<open>The constructor arguments that \<open>__init__\<close> stores unchanged (lines 109 to 125).\<close>

record config =
  train_dataset :: "dataset option"
  eval_dataset :: "dataset option"
  model_init :: "model_init_fn option"
  metric :: metric
  metric_kwargs :: "params option"
  loss_class :: "loss_class option"
  num_iterations :: int
  num_epochs :: int
  learning_rate :: real
  batch_size :: int
  seed :: int
  column_mapping :: "(string \<times> string) list option"
  use_amp :: bool
  warmup_proportion :: real
  distance_metric :: distance_fn
  margin :: real
  samples_per_label :: int

text \<open>
  The trainer object. \<open>freeze_switch\<close> is the attribute \<open>_freeze\<close>; \<open>hp_space\<close> is \<open>None\<close>
  while the attributes \<open>hp_space\<close>, \<open>hp_name\<close> and \<open>compute_objective\<close> do not exist (they
  are created together by \<open>hyperparameter_search\<close>, lines 621 to 623).
\<close>

record trainer = config +
  model :: "setfit_model option"
  hp_search_backend :: "backend option"
  freeze_switch :: bool
  sentence_transformer_history :: history
  classifier_history :: history
  hp_space :: "(nat \<Rightarrow> params) option"

text \<open>The defaults of the signature of \<open>__init__\<close> (lines 85 to 102).\<close>

definition default_config :: config where
  "default_config =
     \<lparr> train_dataset = None, eval_dataset = None, model_init = None,
       metric = MetricName ''accuracy'', metric_kwargs = None,
       loss_class = Some CosineSimilarityLoss, num_iterations = 20, num_epochs = 1,
       learning_rate = 2 / 100000, batch_size = 16, seed = 42, column_mapping = None,
       use_amp = False, warmup_proportion = 1 / 10, distance_metric = CosineDistance,
       margin = 1 / 4, samples_per_label = 2 \<rparr>"

definition call_model_init ::
  "model_init_fn option \<Rightarrow> params option \<Rightarrow> error + setfit_model" where
  "call_model_init mi ps =
     (case mi of
        None \<Rightarrow> Inl (TypeError (Msg ''None is not a callable object''))
      | Some f \<Rightarrow>
          (case (if number_of_arguments f = 0 then call0 f
                 else if number_of_arguments f = 1 then call1 f ps
                 else Inl (RuntimeError ModelInitArity)) of
             Inl e \<Rightarrow> Inl e
           | Inr None \<Rightarrow> Inl (RuntimeError ModelInitReturnedNone)
           | Inr (Some m) \<Rightarrow> Inr m))"

definition new_trainer :: "config \<Rightarrow> setfit_model \<Rightarrow> trainer" where
  "new_trainer cfg m =
     config.extend cfg
       (trainer.fields (Some m) None True
          \<lparr> h_train = [], h_test = [] \<rparr> \<lparr> h_train = [], h_test = [] \<rparr> None)"

text \<open>Lines 127 to 136 of \<open>__init__\<close>: the model is given, or built by \<open>model_init\<close>.\<close>

definition resolve_model :: "setfit_model option \<Rightarrow> config \<Rightarrow> error + setfit_model" where
  "resolve_model model_arg cfg =
     (case model_arg of
        None \<Rightarrow>
          (case model_init cfg of
             Some mi \<Rightarrow> call_model_init (Some mi) None
           | None \<Rightarrow> Inl (RuntimeError ModelOrModelInitRequired))
      | Some m \<Rightarrow>
          (case model_init cfg of
             Some mi \<Rightarrow> Inl (RuntimeError ModelAndModelInitBoth)
           | None \<Rightarrow> Inr m))"

text \<open>\<open>SetFitTrainer.__init__\<close> (lines 83 to 148).\<close>

definition init :: "setfit_model option \<Rightarrow> config \<Rightarrow> error + trainer" where
  "init model_arg cfg =
     (if warmup_proportion cfg < 0 \<or> warmup_proportion cfg > 1
        then Inl (ValueError (WarmupProportionRange (warmup_proportion cfg)))
      else
        (case resolve_model model_arg cfg of
           Inl e \<Rightarrow> Inl e
         | Inr m \<Rightarrow> Inr (new_trainer cfg m)))"

subsection \<open>Column validation and mapping\<close>

definition required_columns :: "string set" where
  "required_columns = {''text'', ''label''}"

text \<open>\<open>_validate_column_mapping\<close> (lines 150 to 184).\<close>

definition validate_column_mapping :: "trainer \<Rightarrow> dataset \<Rightarrow> error + unit" where
  "validate_column_mapping self ds =
     (let names = set (column_names ds) in
      if column_mapping self = None \<and> \<not> required_columns \<subseteq> names then
        (if names = {''train''} \<and> isinstance_DatasetDict ds
           then Inl (ValueError DatasetDictTrainSplit)
         else if isinstance_DatasetDict ds
           then Inl (ValueError (DatasetDictSplits names))
         else Inl (ValueError (RequiredColumnsMissing names)))
      else
        (case column_mapping self of
           None \<Rightarrow> Inr ()
         | Some cm \<Rightarrow>
             (let missing_columns = required_columns - set (map snd cm) in
              if missing_columns \<noteq> {}
                then Inl (ValueError (MappingTargetsMissing missing_columns))
              else if \<not> set (map fst cm) \<subseteq> names
                then Inl (ValueError (MappingSourcesMissing (set (map fst cm)) names))
              else Inr ())))"

text \<open>
  \<open>_apply_column_mapping\<close> (lines 186 to 204): mapped columns take their target name, every
  other column is prefixed with \<open>feat_\<close>; \<open>with_format\<close> keeps the format and is the
  identity on a table. Renaming a \<open>DatasetDict\<close> is left unmodelled.
\<close>

definition apply_column_mapping ::
  "dataset \<Rightarrow> (string \<times> string) list \<Rightarrow> error + dataset" where
  "apply_column_mapping ds cm =
     (case ds of
        Dataset t \<Rightarrow>
          (case rename_columns t
                  (cm @ map (\<lambda>col. (col, ''feat_'' @ col))
                          (filter (\<lambda>col. col \<notin> set (map fst cm)) (map fst t))) of
             Inl e \<Rightarrow> Inl e
           | Inr t' \<Rightarrow> Inr (Dataset t'))
      | DatasetDict d \<Rightarrow> Inl (Unmodelled ''column mapping applied to a DatasetDict''))"

section \<open>The environment\<close>

text \<open>
  What the trainer calls and does not define: Python's builtin constructors \<open>int\<close> and
  \<open>float\<close> and the rounding product of an int and a float; the pair generators of
  setfit/modeling.py (their first argument is the index of the generation pass, since
  each pass draws from the process-wide random generator); the example count the
  label-grouped sampler reports; the callback invocations the two fit routines make;
  the model's \<open>predict\<close>; the metric library. Every theorem below holds for every
  environment.
\<close>

record input_example =
  texts :: "pyval list"
  label :: pyval

datatype body_callback =
    LogTrainingProgress int int int real real
  | LogEvaluatingProgress real int int

datatype head_callback =
    HeadLogTrainingProgress int real
  | HeadLogEvaluatingProgress real int

record sentence_label_dataset =
  sl_examples :: "input_example list"
  sl_samples_per_label :: int
  sl_len :: nat

datatype data_source =
    LabelSampler sentence_label_dataset
  | ExampleList "input_example list"

record dataloader =
  dl_data :: data_source
  dl_batch_size :: int
  dl_shuffle :: bool
  dl_drop_last :: bool

datatype loss = Loss loss_class "distance_fn option" "real option"

text \<open>The keyword arguments of the call of \<open>model_body.fit\<close> (lines 479 to 490).\<close>

record body_fit_call =
  bf_train_dataloader :: dataloader
  bf_train_loss :: loss
  bf_epochs :: int
  bf_lr :: real
  bf_warmup_steps :: int
  bf_show_progress_bar :: bool
  bf_use_amp :: bool
  bf_log_steps :: "int option"
  bf_test_dataloader :: dataloader

text \<open>The keyword arguments of the call of \<open>model.fit\<close> (lines 501 to 515).\<close>

record head_fit_call =
  hf_x_train :: "pyval list"
  hf_y_train :: "pyval list"
  hf_x_test :: "pyval list"
  hf_y_test :: "pyval list"
  hf_num_epochs :: int
  hf_batch_size :: int
  hf_learning_rate :: real
  hf_body_learning_rate :: "real option"
  hf_l2_weight :: "real option"
  hf_max_length :: "int option"

record env =
  py_int :: "pyval \<Rightarrow> error + int"
  py_float :: "pyval \<Rightarrow> error + real"
  int_times_float :: "int \<Rightarrow> real \<Rightarrow> real"
  sentence_pairs_generation ::
    "nat \<Rightarrow> pyval list \<Rightarrow> pyval list \<Rightarrow> input_example list \<Rightarrow> input_example list"
  sentence_pairs_generation_multilabel ::
    "nat \<Rightarrow> pyval list \<Rightarrow> pyval list \<Rightarrow> input_example list \<Rightarrow> input_example list"
  sampler_len :: "input_example list \<Rightarrow> int \<Rightarrow> nat"
  body_fit_callbacks :: "body_fit_call \<Rightarrow> body_callback list"
  head_fit_callbacks :: "head_fit_call \<Rightarrow> head_callback list"
  predict :: "setfit_model \<Rightarrow> pyval list \<Rightarrow> pyval list"
  metric_compute ::
    "string \<Rightarrow> string option \<Rightarrow> params \<Rightarrow> pyval list \<Rightarrow> pyval list
       \<Rightarrow> error + (string \<times> real) list"

text \<open>What a run leaves behind besides the trainer: the calls it made, in order.\<close>

datatype event =
    SetSeed int
  | LogWarning string
  | BodyFit body_fit_call
  | HeadFit head_fit_call

type_synonym outcome = "trainer \<times> event list \<times> error option"

section \<open>Hyperparameters\<close>

text \<open>
  \<open>hasattr(self, key)\<close>. The attributes holding a bool, an int or a float are set with
  their type kept; the other attributes exist too, and what \<open>type(old_attr)(value)\<close>
  does for them (a dataset, a callable, a dict) is not modelled, except that the type of
  a bound method cannot be called with one argument.
\<close>

definition scalar_attributes :: "string list" where
  "scalar_attributes =
     [''num_iterations'', ''num_epochs'', ''learning_rate'', ''batch_size'', ''seed'',
      ''use_amp'', ''warmup_proportion'', ''margin'', ''samples_per_label'', ''_freeze'']"

definition object_attributes :: "string list" where
  "object_attributes =
     [''train_dataset'', ''eval_dataset'', ''model_init'', ''metric'', ''metric_kwargs'',
      ''loss_class'', ''column_mapping'', ''distance_metric'', ''model'',
      ''hp_search_backend'', ''sentence_transformer_history'', ''classifier_history'']"

definition search_attributes :: "string list" where
  "search_attributes = [''hp_space'', ''hp_name'', ''compute_objective'']"

definition method_names :: "string list" where
  "method_names =
     [''_validate_column_mapping'', ''_apply_column_mapping'', ''apply_hyperparameters'',
      ''_hp_search_setup'', ''call_model_init'', ''freeze'', ''unfreeze'',
      ''_log_training_progress'', ''_log_test_progress'', ''train'', ''evaluate'',
      ''hyperparameter_search'', ''push_to_hub'']"

definition inherited_attributes :: "string list" where
  "inherited_attributes =
     [''__class__'', ''__delattr__'', ''__dict__'', ''__dir__'', ''__doc__'', ''__eq__'',
      ''__format__'', ''__ge__'', ''__getattribute__'', ''__getstate__'', ''__gt__'',
      ''__hash__'', ''__init__'', ''__init_subclass__'', ''__le__'', ''__lt__'',
      ''__module__'', ''__ne__'', ''__new__'', ''__reduce__'', ''__reduce_ex__'',
      ''__repr__'', ''__setattr__'', ''__sizeof__'', ''__str__'', ''__subclasshook__'',
      ''__weakref__'']"

definition hasattr :: "trainer \<Rightarrow> string \<Rightarrow> bool" where
  "hasattr self key =
     (key \<in> set scalar_attributes \<or> key \<in> set object_attributes
      \<or> (hp_space self \<noteq> None \<and> key \<in> set search_attributes)
      \<or> key \<in> set method_names \<or> key \<in> set inherited_attributes)"

definition on_result :: "('a \<Rightarrow> trainer) \<Rightarrow> error + 'a \<Rightarrow> error + trainer" where
  "on_result f r = (case r of Inl e \<Rightarrow> Inl e | Inr v \<Rightarrow> Inr (f v))"

text \<open>
  Lines 215 to 219 for an existing attribute: the value is cast to the type of the old
  value (never \<open>None\<close> for the scalar attributes) and stored.
\<close>

definition cast_and_setattr :: "env \<Rightarrow> trainer \<Rightarrow> string \<Rightarrow> pyval \<Rightarrow> error + trainer" where
  "cast_and_setattr E self key v =
     (if key = ''num_iterations'' then on_result (\<lambda>n. self\<lparr>num_iterations := n\<rparr>) (py_int E v)
      else if key = ''num_epochs'' then on_result (\<lambda>n. self\<lparr>num_epochs := n\<rparr>) (py_int E v)
      else if key = ''learning_rate''
        then on_result (\<lambda>x. self\<lparr>learning_rate := x\<rparr>) (py_float E v)
      else if key = ''batch_size'' then on_result (\<lambda>n. self\<lparr>batch_size := n\<rparr>) (py_int E v)
      else if key = ''seed'' then on_result (\<lambda>n. self\<lparr>seed := n\<rparr>) (py_int E v)
      else if key = ''use_amp'' then Inr (self\<lparr>use_amp := truthy v\<rparr>)
      else if key = ''warmup_proportion''
        then on_result (\<lambda>x. self\<lparr>warmup_proportion := x\<rparr>) (py_float E v)
      else if key = ''margin'' then on_result (\<lambda>x. self\<lparr>margin := x\<rparr>) (py_float E v)
      else if key = ''samples_per_label''
        then on_result (\<lambda>n. self\<lparr>samples_per_label := n\<rparr>) (py_int E v)
      else if key = ''_freeze'' then Inr (self\<lparr>freeze_switch := truthy v\<rparr>)
      else if key \<in> set method_names
        then Inl (TypeError (Msg ''method expected 2 arguments, got 1''))
      else Inl (Unmodelled ''attribute that holds an object''))"

text \<open>The body of the loop of \<open>apply_hyperparameters\<close> (lines 214 to 224).\<close>

definition apply_hyperparameter :: "env \<Rightarrow> trainer \<Rightarrow> string \<times> pyval \<Rightarrow> outcome" where
  "apply_hyperparameter E self kv =
     (case kv of (key, v) \<Rightarrow>
        if hasattr self key then
          (case cast_and_setattr E self key v of
             Inl e \<Rightarrow> (self, [], Some e)
           | Inr self' \<Rightarrow> (self', [], None))
        else
          (case model_init self of
             None \<Rightarrow> (self, [], Some (TypeError (Msg ''None is not a callable object'')))
           | Some mi \<Rightarrow>
               if number_of_arguments mi = 0 then (self, [LogWarning key], None)
               else (self, [], None)))"

fun apply_loop :: "env \<Rightarrow> trainer \<Rightarrow> params \<Rightarrow> outcome" where
  "apply_loop E self [] = (self, [], None)"
| "apply_loop E self (kv # rest) =
     (case apply_hyperparameter E self kv of
        (self', evs, Some e) \<Rightarrow> (self', evs, Some e)
      | (self', evs, None) \<Rightarrow>
          (case apply_loop E self' rest of (self'', evs', r) \<Rightarrow> (self'', evs @ evs', r)))"

text \<open>
  \<open>apply_hyperparameters\<close> (lines 206 to 228). After the loop the model is replaced by
  \<open>self.model_init(params)\<close>, called with one argument whatever its arity. An exception
  leaves the attributes set so far in place.
\<close>

definition apply_hyperparameters :: "env \<Rightarrow> trainer \<Rightarrow> params \<Rightarrow> bool \<Rightarrow> outcome" where
  "apply_hyperparameters E self ps final_model =
     (case apply_loop E self ps of
        (self', evs, Some e) \<Rightarrow> (self', evs, Some e)
      | (self', evs, None) \<Rightarrow>
          (case model_init self' of
             None \<Rightarrow> (self', evs, Some (TypeError (Msg ''NoneType object is not callable'')))
           | Some mi \<Rightarrow>
               (case call1 mi (Some ps) of
                  Inl e \<Rightarrow> (self', evs, Some e)
                | Inr m \<Rightarrow>
                    (if final_model then self'\<lparr>model := m, model_init := None\<rparr>
                     else self'\<lparr>model := m\<rparr>, evs, None))))"

datatype trial = TrialDict params | TrialObject nat

text \<open>\<open>if trial:\<close> (line 378): \<open>None\<close> and the empty dict are false.\<close>

fun trial_truthy :: "trial option \<Rightarrow> bool" where
  "trial_truthy None = False"
| "trial_truthy (Some (TrialDict ps)) = (ps \<noteq> [])"
| "trial_truthy (Some (TrialObject t)) = True"

text \<open>\<open>_hp_search_setup\<close> (lines 230 to 245).\<close>

definition hp_search_setup :: "env \<Rightarrow> trainer \<Rightarrow> trial option \<Rightarrow> outcome" where
  "hp_search_setup E self tr =
     (if hp_search_backend self = None \<or> tr = None then (self, [], None)
      else
        (case tr of
           None \<Rightarrow> (self, [], None)
         | Some (TrialDict ps) \<Rightarrow> apply_hyperparameters E self ps False
         | Some (TrialObject t) \<Rightarrow>
             if hp_search_backend self = Some OPTUNA then
               (case hp_space self of
                  None \<Rightarrow> (self, [], Some (AttributeError (Msg ''hp_space'')))
                | Some space \<Rightarrow> apply_hyperparameters E self (space t) False)
             else (self, [], Some (ValueError InvalidTrialParameter))))"

section \<open>The freeze switch\<close>



section \<open>Samplers and loaders\<close>

text \<open>
  Modelled from the spec: the label-grouped sampler and the batching loader are
  third-party classes (sentence_transformers' \<open>SentenceLabelDataset\<close>, torch's
  \<open>DataLoader\<close>) that the source only calls. The spec says of them: batches are built by
  label-grouped sampling over all examples; a group holds examples of one label, drawn
  without repetition (the docstring of line 78: consecutive, random and unique samples
  per label), a bounded number of them (\<open>samples_per_label\<close>); the sampler has an
  available example count; with \<open>drop_last\<close> a trailing partial batch is discarded, never
  padded; a loader has a number of batches per epoch. A non-positive batch size is
  refused by the loader.
\<close>

definition SentenceLabelDataset :: "env \<Rightarrow> input_example list \<Rightarrow> int \<Rightarrow> sentence_label_dataset" where
  "SentenceLabelDataset E examples spl =
     \<lparr> sl_examples = examples, sl_samples_per_label = spl, sl_len = sampler_len E examples spl \<rparr>"

definition DataLoader :: "data_source \<Rightarrow> int \<Rightarrow> bool \<Rightarrow> bool \<Rightarrow> error + dataloader" where
  "DataLoader src bs shuffle drop_last =
     (if bs \<le> 0 then Inl (ValueError (Msg ''batch_size should be a positive integer value''))
      else Inr \<lparr> dl_data = src, dl_batch_size = bs, dl_shuffle = shuffle,
                 dl_drop_last = drop_last \<rparr>)"

fun source_len :: "data_source \<Rightarrow> nat" where
  "source_len (LabelSampler sld) = sl_len sld"
| "source_len (ExampleList xs) = length xs"

text \<open>\<open>len(dataloader)\<close>: the number of batches per epoch the loader reports.\<close>

definition len_dataloader :: "dataloader \<Rightarrow> int" where
  "len_dataloader dl =
     (let n = int (source_len (dl_data dl)); b = dl_batch_size dl in
      if dl_drop_last dl then n div b else (n + b - 1) div b)"

text \<open>
  One group of the sampler: the examples of label \<open>L\<close> at the positions the random
  generator picked, each position used once, at most \<open>samples_per_label\<close> of them.
\<close>

definition label_group ::
  "input_example list \<Rightarrow> int \<Rightarrow> pyval \<Rightarrow> nat list \<Rightarrow> input_example list" where
  "label_group examples spl L picks =
     (let same = filter (\<lambda>ex. label ex = L) examples in
      map (\<lambda>i. same ! i) (take (nat spl) (remdups (filter (\<lambda>i. i < length same) picks))))"

text \<open>The stream of one epoch: the groups of a drawing plan, one after the other.\<close>

definition epoch_stream ::
  "sentence_label_dataset \<Rightarrow> (pyval \<times> nat list) list \<Rightarrow> input_example list" where
  "epoch_stream sld plan =
     concat (map (\<lambda>(L, picks). label_group (sl_examples sld) (sl_samples_per_label sld) L picks)
               plan)"

text \<open>The batches a loader cuts from a stream; \<open>b\<close> is the batch size as a natural number.\<close>

fun batches :: "bool \<Rightarrow> nat \<Rightarrow> 'a list \<Rightarrow> 'a list list" where
  "batches drop_last b xs =
     (if xs = [] \<or> b = 0 then []
      else if length xs < b then (if drop_last then [] else [xs])
      else take b xs # batches drop_last b (drop b xs))"

definition iter_batches :: "dataloader \<Rightarrow> 'a list \<Rightarrow> 'a list list" where
  "iter_batches dl stream = batches (dl_drop_last dl) (nat (dl_batch_size dl)) stream"

section \<open>Training\<close>

text \<open>The arguments of \<open>train\<close> (lines 335 to 346).\<close>

record train_args =
  arg_num_epochs :: "int option"
  arg_batch_size :: "int option"
  arg_learning_rate :: "real option"
  arg_body_learning_rate :: "real option"
  arg_l2_weight :: "real option"
  arg_max_length :: "int option"
  arg_trial :: "trial option"
  arg_show_progress_bar :: bool
  arg_log_steps :: "int option"

definition default_train_args :: train_args where
  "default_train_args =
     \<lparr> arg_num_epochs = None, arg_batch_size = None, arg_learning_rate = None,
       arg_body_learning_rate = None, arg_l2_weight = None, arg_max_length = None,
       arg_trial = None, arg_show_progress_bar = True, arg_log_steps = Some 0 \<rparr>"

text \<open>
  \<open>override or configured\<close> (lines 401 to 403): Python's \<open>or\<close> returns its left operand
  when that is true, and \<open>None\<close>, \<open>0\<close> and \<open>0.0\<close> are false.
\<close>

definition or_int :: "int option \<Rightarrow> int \<Rightarrow> int" where
  "or_int override configured =
     (case override of None \<Rightarrow> configured | Some v \<Rightarrow> if v \<noteq> 0 then v else configured)"

definition or_float :: "real option \<Rightarrow> real \<Rightarrow> real" where
  "or_float override configured =
     (case override of None \<Rightarrow> configured | Some v \<Rightarrow> if v \<noteq> 0 then v else configured)"

fun bind_err :: "error + 'a \<Rightarrow> ('a \<Rightarrow> error + 'b) \<Rightarrow> error + 'b" where
  "bind_err (Inl e) f = Inl e"
| "bind_err (Inr v) f = f v"

text \<open>Lines 381 to 392: the training dataset, validated, mapped and read.\<close>

definition train_columns :: "trainer \<Rightarrow> error + (pyval list \<times> pyval list)" where
  "train_columns self =
     (case train_dataset self of
        None \<Rightarrow> Inl (ValueError TrainDatasetRequired)
      | Some ds \<Rightarrow>
          bind_err (validate_column_mapping self ds) (\<lambda>u.
          bind_err (case column_mapping self of
                      None \<Rightarrow> Inr ds
                    | Some cm \<Rightarrow> apply_column_mapping ds cm) (\<lambda>mapped.
          bind_err (getitem (Some mapped) ''text'') (\<lambda>x_train.
          bind_err (getitem (Some mapped) ''label'') (\<lambda>y_train.
          Inr (x_train, y_train))))))"

text \<open>Lines 386, 394 and 395: the evaluation dataset is read as it is.\<close>

definition eval_columns :: "trainer \<Rightarrow> error + (pyval list \<times> pyval list)" where
  "eval_columns self =
     bind_err (getitem (eval_dataset self) ''text'') (\<lambda>x_test.
     bind_err (getitem (eval_dataset self) ''label'') (\<lambda>y_test.
     Inr (x_test, y_test)))"

definition triplet_family :: "loss_class list" where
  "triplet_family =
     [BatchAllTripletLoss, BatchHardTripletLoss, BatchSemiHardTripletLoss,
      BatchHardSoftMarginTripletLoss, SupConLoss]"

definition make_examples :: "pyval list \<Rightarrow> pyval list \<Rightarrow> input_example list" where
  "make_examples xs ys = map (\<lambda>(t, l). \<lparr> texts = [t], label = l \<rparr>) (zip xs ys)"

text \<open>Lines 431 to 443: the constructor arguments each triplet-family loss is given.\<close>

definition triplet_loss :: "trainer \<Rightarrow> loss_class \<Rightarrow> loss" where
  "triplet_loss self lc =
     (if lc = BatchHardSoftMarginTripletLoss then Loss lc (Some (distance_metric self)) None
      else if lc = SupConLoss then Loss lc None None
      else Loss lc (Some (distance_metric self)) (Some (margin self)))"

text \<open>Lines 445 to 462: \<open>num_iterations\<close> generation passes, each extending the list.\<close>

definition generate_pairs ::
  "env \<Rightarrow> setfit_model \<Rightarrow> int \<Rightarrow> pyval list \<Rightarrow> pyval list \<Rightarrow> input_example list" where
  "generate_pairs E m n xs ys =
     fold (\<lambda>i acc. if multi_target_strategy m \<noteq> None
                    then sentence_pairs_generation_multilabel E i xs ys acc
                    else sentence_pairs_generation E i xs ys acc)
          [0..<nat n] []"

definition math_ceil :: "real \<Rightarrow> int" where
  "math_ceil x = \<lceil>x\<rceil>"

text \<open>Lines 471 to 490: the steps, the warmup and the call of \<open>model_body.fit\<close>.\<close>

definition body_fit ::
  "env \<Rightarrow> trainer \<Rightarrow> train_args \<Rightarrow> int \<Rightarrow> real \<Rightarrow> dataloader \<Rightarrow> loss \<Rightarrow> dataloader
     \<Rightarrow> body_fit_call" where
  "body_fit E self a num_epochs' learning_rate' train_dataloader train_loss test_dataloader =
     (let total_train_steps = len_dataloader train_dataloader * num_epochs';
          warmup_steps = math_ceil (int_times_float E total_train_steps (warmup_proportion self))
      in \<lparr> bf_train_dataloader = train_dataloader, bf_train_loss = train_loss,
           bf_epochs = num_epochs', bf_lr = learning_rate', bf_warmup_steps = warmup_steps,
           bf_show_progress_bar = arg_show_progress_bar a, bf_use_amp = use_amp self,
           bf_log_steps = arg_log_steps a, bf_test_dataloader = test_dataloader \<rparr>)"

text \<open>
  Lines 414 to 490, the body-training phase: the fit call it makes and the batch size it
  leaves in the local variable \<open>batch_size\<close> (reassigned on line 424).
\<close>

definition body_training ::
  "env \<Rightarrow> trainer \<Rightarrow> train_args \<Rightarrow> setfit_model \<Rightarrow> loss_class
     \<Rightarrow> pyval list \<Rightarrow> pyval list \<Rightarrow> pyval list \<Rightarrow> pyval list \<Rightarrow> int \<Rightarrow> int \<Rightarrow> real
     \<Rightarrow> error + (body_fit_call \<times> int)" where
  "body_training E self a m lc x_train y_train x_test y_test num_epochs' batch_size'
       learning_rate' =
     (if lc \<in> set triplet_family then
        (let train_examples = make_examples x_train y_train;
             train_data_sampler =
               SentenceLabelDataset E train_examples (samples_per_label self);
             capped = min batch_size' (int (sl_len train_data_sampler)) in
         bind_err (DataLoader (LabelSampler train_data_sampler) capped False True)
           (\<lambda>train_dataloader.
         let test_examples = make_examples x_test y_test;
             test_data_sampler = SentenceLabelDataset E test_examples (samples_per_label self)
         in
         bind_err (DataLoader (LabelSampler test_data_sampler) capped False True)
           (\<lambda>test_dataloader.
         Inr (body_fit E self a num_epochs' learning_rate' train_dataloader
                (triplet_loss self lc) test_dataloader, capped))))
      else
        (let train_examples = generate_pairs E m (num_iterations self) x_train y_train;
             test_examples = generate_pairs E m (num_iterations self) x_test y_test in
         bind_err (DataLoader (ExampleList train_examples) batch_size' True False)
           (\<lambda>train_dataloader.
         bind_err (DataLoader (ExampleList test_examples) batch_size' True False)
           (\<lambda>test_dataloader.
         Inr (body_fit E self a num_epochs' learning_rate' train_dataloader
                (Loss lc None None) test_dataloader, batch_size')))))"

text \<open>\<open>_log_training_progress\<close> and \<open>_log_test_progress\<close> (lines 291 to 333).\<close>

definition log_training_progress ::
  "int \<Rightarrow> int \<Rightarrow> int \<Rightarrow> real \<Rightarrow> real \<Rightarrow> history \<Rightarrow> history" where
  "log_training_progress training_idx epoch steps current_lr loss_value h =
     h\<lparr>h_train := h_train h @ [TrainEntry training_idx epoch steps current_lr loss_value]\<rparr>"

definition log_test_progress :: "real \<Rightarrow> int \<Rightarrow> int \<Rightarrow> history \<Rightarrow> history" where
  "log_test_progress score epoch steps h = h\<lparr>h_test := h_test h @ [TestEntry epoch score]\<rparr>"

fun body_log :: "body_callback \<Rightarrow> history \<Rightarrow> history" where
  "body_log (LogTrainingProgress i e st lr lv) h = log_training_progress i e st lr lv h"
| "body_log (LogEvaluatingProgress sc e st) h = log_test_progress sc e st h"

fun head_log :: "head_callback \<Rightarrow> history \<Rightarrow> history" where
  "head_log (HeadLogTrainingProgress e lv) h = log_training_progress (- 1) e (- 1) (- 1) lv h"
| "head_log (HeadLogEvaluatingProgress sc e) h = log_test_progress sc e (- 1) h"

text \<open>Lines 501 to 515: the call of \<open>model.fit\<close>.\<close>

definition head_fit ::
  "train_args \<Rightarrow> pyval list \<Rightarrow> pyval list \<Rightarrow> pyval list \<Rightarrow> pyval list \<Rightarrow> int \<Rightarrow> int \<Rightarrow> real
     \<Rightarrow> head_fit_call" where
  "head_fit a x_train y_train x_test y_test num_epochs' batch_size' learning_rate' =
     \<lparr> hf_x_train = x_train, hf_y_train = y_train, hf_x_test = x_test, hf_y_test = y_test,
       hf_num_epochs = num_epochs', hf_batch_size = batch_size',
       hf_learning_rate = learning_rate', hf_body_learning_rate = arg_body_learning_rate a,
       hf_l2_weight = arg_l2_weight a, hf_max_length = arg_max_length a \<rparr>"

text \<open>Lines 492 to 515, the head-training phase, entered under its guard.\<close>

definition head_phase ::
  "env \<Rightarrow> trainer \<Rightarrow> train_args \<Rightarrow> setfit_model
     \<Rightarrow> pyval list \<Rightarrow> pyval list \<Rightarrow> pyval list \<Rightarrow> pyval list \<Rightarrow> int \<Rightarrow> int \<Rightarrow> real
     \<Rightarrow> trainer \<times> event list" where
  "head_phase E self a m x_train y_train x_test y_test num_epochs' batch_size' learning_rate' =
     (if \<not> has_differentiable_head m \<or> \<not> freeze_switch self then
        (let c = head_fit a x_train y_train x_test y_test num_epochs' batch_size' learning_rate'
         in (self\<lparr>classifier_history :=
                    fold head_log (head_fit_callbacks E c) (classifier_history self)\<rparr>,
             [HeadFit c]))
      else (self, []))"

text \<open>
  Lines 397 to 515: the default loss, the resolved overrides and the two phases, each
  under its guard. The fit routines are opaque: they return, and report through their
  callbacks.
\<close>

definition run_phases ::
  "env \<Rightarrow> trainer \<Rightarrow> train_args \<Rightarrow> pyval list \<Rightarrow> pyval list \<Rightarrow> pyval list \<Rightarrow> pyval list
     \<Rightarrow> outcome" where
  "run_phases E self0 a x_train y_train x_test y_test =
     (let self = (if loss_class self0 = None
                  then self0\<lparr>loss_class := Some CosineSimilarityLoss\<rparr> else self0);
          warn = (if loss_class self0 = None
                  then [LogWarning ''No loss_class detected! Using CosineSimilarityLoss as the default.'']
                  else []);
          lc = (case loss_class self of None \<Rightarrow> CosineSimilarityLoss | Some c \<Rightarrow> c);
          num_epochs' = or_int (arg_num_epochs a) (num_epochs self);
          batch_size' = or_int (arg_batch_size a) (batch_size self);
          learning_rate' = or_float (arg_learning_rate a) (learning_rate self) in
      case model self of
        None \<Rightarrow> (self, warn, Some (AttributeError (Msg ''has_differentiable_head'')))
      | Some m \<Rightarrow>
          if \<not> has_differentiable_head m \<or> freeze_switch self then
            (case body_training E self a m lc x_train y_train x_test y_test
                    num_epochs' batch_size' learning_rate' of
               Inl e \<Rightarrow> (self, warn, Some e)
             | Inr (c, batch_size'') \<Rightarrow>
                 (let self1 = self\<lparr>sentence_transformer_history :=
                                     fold body_log (body_fit_callbacks E c)
                                       (sentence_transformer_history self)\<rparr> in
                  case head_phase E self1 a m x_train y_train x_test y_test
                         num_epochs' batch_size'' learning_rate' of
                    (self2, evs) \<Rightarrow> (self2, warn @ [BodyFit c] @ evs, None)))
          else
            (case head_phase E self a m x_train y_train x_test y_test
                    num_epochs' batch_size' learning_rate' of
               (self2, evs) \<Rightarrow> (self2, warn @ evs, None)))"

text \<open>Lines 378 and 379: the trial, if there is one, sets parameters and the model.\<close>

definition trial_setup :: "env \<Rightarrow> trainer \<Rightarrow> train_args \<Rightarrow> outcome" where
  "trial_setup E self a =
     (if trial_truthy (arg_trial a) then hp_search_setup E self (arg_trial a)
      else (self, [], None))"

text \<open>\<open>train\<close> (lines 335 to 515).\<close>

definition train :: "env \<Rightarrow> trainer \<Rightarrow> train_args \<Rightarrow> outcome" where
  "train E self0 a =
     (case trial_setup E self0 a of
        (self, evs, Some e) \<Rightarrow> (self, SetSeed (seed self0) # evs, Some e)
      | (self, evs, None) \<Rightarrow>
          (case train_columns self of
             Inl e \<Rightarrow> (self, SetSeed (seed self0) # evs, Some e)
           | Inr (x_train, y_train) \<Rightarrow>
               (case eval_columns self of
                  Inl e \<Rightarrow> (self, SetSeed (seed self0) # evs, Some e)
                | Inr (x_test, y_test) \<Rightarrow>
                    (case run_phases E self a x_train y_train x_test y_test of
                       (self', evs', r) \<Rightarrow> (self', SetSeed (seed self0) # evs @ evs', r)))))"

text \<open>Which phases a run went through, read from the calls it made.\<close>

fun is_body_fit :: "event \<Rightarrow> bool" where
  "is_body_fit (BodyFit c) = True"
| "is_body_fit _ = False"

fun is_head_fit :: "event \<Rightarrow> bool" where
  "is_head_fit (HeadFit c) = True"
| "is_head_fit _ = False"

definition body_training_ran :: "event list \<Rightarrow> bool" where
  "body_training_ran evs = list_ex is_body_fit evs"

definition head_training_ran :: "event list \<Rightarrow> bool" where
  "head_training_ran evs = list_ex is_head_fit evs"

section \<open>Evaluation\<close>



section \<open>Hyperparameter search\<close>








text \<open>
  \<open>push_to_hub\<close> (lines 633 to 674): the upload is the model's; the trainer is only read.
\<close>

definition push_to_hub ::
  "(setfit_model \<Rightarrow> string \<Rightarrow> string \<Rightarrow> string) \<Rightarrow> trainer \<Rightarrow> string \<Rightarrow> string option
     \<Rightarrow> error + string" where
  "push_to_hub upload self repo_id commit_message =
     (if CHR ''/'' \<notin> set repo_id then Inl (ValueError RepoIdNotFull)
      else
        (case model self of
           None \<Rightarrow> Inl (AttributeError (Msg ''push_to_hub''))
         | Some m \<Rightarrow>
             Inr (upload m repo_id
                    (case commit_message of None \<Rightarrow> ''Add SetFit model'' | Some c \<Rightarrow> c))))"



section \<open>A sample environment and sample objects\<close>

text \<open>
  One environment among all: floats are exact, strings are read as plain decimal
  numerals, the sampler keeps the examples whose label occurs at least
  \<open>samples_per_label\<close> times, a generation pass adds one pair per example.
\<close>

definition is_digit :: "char \<Rightarrow> bool" where
  "is_digit c = ((48::nat) \<le> of_char c \<and> of_char c \<le> (57::nat))"

definition digits_value :: "string \<Rightarrow> nat" where
  "digits_value s = foldl (\<lambda>acc c. 10 * acc + (of_char c - 48)) 0 s"

definition parse_decimal :: "string \<Rightarrow> real option" where
  "parse_decimal s =
     (let ip = takeWhile (\<lambda>c. c \<noteq> CHR ''.'') s;
          rest = dropWhile (\<lambda>c. c \<noteq> CHR ''.'') s;
          fp = (if rest = [] then [] else tl rest) in
      if (ip = [] \<and> fp = []) \<or> \<not> list_all is_digit (ip @ fp) then None
      else Some (real (digits_value ip) + real (digits_value fp) / 10 ^ length fp))"

fun sample_float :: "pyval \<Rightarrow> error + real" where
  "sample_float (PBool b) = Inr (if b then 1 else 0)"
| "sample_float (PInt i) = Inr (of_int i)"
| "sample_float (PFloat f) = Inr f"
| "sample_float (PStr s) =
     (case parse_decimal s of
        None \<Rightarrow> Inl (ValueError (Msg ''could not convert string to float''))
      | Some x \<Rightarrow> Inr x)"
| "sample_float v = Inl (TypeError (Msg ''float() argument must be a string or a real number''))"

fun sample_int :: "pyval \<Rightarrow> error + int" where
  "sample_int (PBool b) = Inr (if b then 1 else 0)"
| "sample_int (PInt i) = Inr i"
| "sample_int (PFloat f) = Inr (if 0 \<le> f then \<lfloor>f\<rfloor> else \<lceil>f\<rceil>)"
| "sample_int (PStr s) =
     (if s \<noteq> [] \<and> list_all is_digit s then Inr (int (digits_value s))
      else Inl (ValueError (Msg ''invalid literal for int() with base 10'')))"
| "sample_int v = Inl (TypeError (Msg ''int() argument must be a string or a real number''))"

definition sample_pairs ::
  "nat \<Rightarrow> pyval list \<Rightarrow> pyval list \<Rightarrow> input_example list \<Rightarrow> input_example list" where
  "sample_pairs i xs ys acc =
     acc @ map (\<lambda>(t, l). \<lparr> texts = [t, t], label = PFloat 1 \<rparr>) (zip xs ys)"

definition sample_sampler_len :: "input_example list \<Rightarrow> int \<Rightarrow> nat" where
  "sample_sampler_len examples spl =
     length (filter (\<lambda>ex. spl \<le> int (length (filter (\<lambda>ex'. label ex' = label ex) examples)))
               examples)"

definition sample_env :: env where
  "sample_env =
     \<lparr> py_int = sample_int, py_float = sample_float,
       int_times_float = (\<lambda>n x. of_int n * x),
       sentence_pairs_generation = sample_pairs,
       sentence_pairs_generation_multilabel = sample_pairs,
       sampler_len = sample_sampler_len,
       body_fit_callbacks = (\<lambda>c. [LogTrainingProgress 0 0 1 (bf_lr c) 1]),
       head_fit_callbacks = (\<lambda>c. []),
       predict = (\<lambda>m xs. map (\<lambda>x. PInt 0) xs),
       metric_compute = (\<lambda>name cfg kw preds refs. Inr [(name, 1)]) \<rparr>"

definition sample_table :: table where
  "sample_table =
     [(''text'', [PStr ''good'', PStr ''fine'', PStr ''bad'', PStr ''poor'']),
      (''label'', [PInt 1, PInt 1, PInt 0, PInt 0])]"



definition sample_config :: config where
  "sample_config =
     default_config\<lparr> train_dataset := Some (Dataset sample_table),
                     eval_dataset := Some (Dataset sample_table),
                     num_iterations := 1 \<rparr>"

definition classical_model :: setfit_model where
  "classical_model =
     \<lparr> has_differentiable_head = False, multi_target_strategy = None,
       head_frozen = False, body_frozen = False \<rparr>"

definition differentiable_model :: setfit_model where
  "differentiable_model =
     \<lparr> has_differentiable_head = True, multi_target_strategy = None,
       head_frozen = False, body_frozen = False \<rparr>"

definition zero_arg_model_init :: model_init_fn where
  "zero_arg_model_init =
     \<lparr> number_of_arguments = 0, call0 = Inr (Some classical_model),
       call1 = (\<lambda>ps. Inl (TypeError (Msg ''takes 0 positional arguments but 1 was given''))) \<rparr>"

text \<open>The fit calls of a run, in order.\<close>

fun body_fit_calls :: "event list \<Rightarrow> body_fit_call list" where
  "body_fit_calls [] = []"
| "body_fit_calls (BodyFit c # evs) = c # body_fit_calls evs"
| "body_fit_calls (ev # evs) = body_fit_calls evs"

fun head_fit_calls :: "event list \<Rightarrow> head_fit_call list" where
  "head_fit_calls [] = []"
| "head_fit_calls (HeadFit c # evs) = c # head_fit_calls evs"
| "head_fit_calls (ev # evs) = head_fit_calls evs"

definition sample_trainer :: trainer where
  "sample_trainer = new_trainer sample_config classical_model"

definition differentiable_trainer :: trainer where
  "differentiable_trainer = new_trainer sample_config differentiable_model"




definition zero_override_args :: train_args where
  "zero_override_args =
     default_train_args\<lparr> arg_num_epochs := Some 0, arg_batch_size := Some 0,
                         arg_learning_rate := Some 0 \<rparr>"

definition triplet_trainer :: trainer where
  "triplet_trainer =
     new_trainer (sample_config\<lparr> loss_class := Some BatchAllTripletLoss \<rparr>) classical_model"


definition no_eval_config :: config where
  "no_eval_config = sample_config\<lparr> eval_dataset := None \<rparr>"

definition sample_run :: outcome where
  "sample_run = train sample_env sample_trainer default_train_args"

definition sample_body_fit :: body_fit_call where
  "sample_body_fit = hd (body_fit_calls (fst (snd sample_run)))"

definition zero_override_run :: outcome where
  "zero_override_run = train sample_env sample_trainer zero_override_args"






definition zero_arg_trainer :: trainer where
  "zero_arg_trainer =
     new_trainer (sample_config\<lparr> model_init := Some zero_arg_model_init \<rparr>) classical_model"

definition learning_rate_params :: params where
  "learning_rate_params = [(''learning_rate'', PStr ''0.01'')]"

definition triplet_run :: outcome where
  "triplet_run = train sample_env triplet_trainer default_train_args"

definition triplet_body_fit :: body_fit_call where
  "triplet_body_fit = hd (body_fit_calls (fst (snd triplet_run)))"

definition sample_plan :: "(pyval \<times> nat list) list" where
  "sample_plan = [(PInt 1, [0, 1]), (PInt 0, [1, 0]), (PInt 1, [1, 0])]"

definition triplet_stream :: "input_example list" where
  "triplet_stream =
     (case dl_data (bf_train_dataloader triplet_body_fit) of
        LabelSampler sld \<Rightarrow> epoch_stream sld sample_plan
      | ExampleList xs \<Rightarrow> xs)"










section \<open>Basic facts\<close>

lemma on_result_simps:
  "on_result f (Inl e) = Inl e" "on_result f (Inr v) = Inr (f v)"
  by (simp_all add: on_result_def)

lemma new_trainer_fields:
  "freeze_switch (new_trainer cfg m) = True"
  "hp_search_backend (new_trainer cfg m) = None"
  "model (new_trainer cfg m) = Some m"
  "hp_space (new_trainer cfg m) = None"
  "eval_dataset (new_trainer cfg m) = eval_dataset cfg"
  "train_dataset (new_trainer cfg m) = train_dataset cfg"
  "column_mapping (new_trainer cfg m) = column_mapping cfg"
  "num_epochs (new_trainer cfg m) = num_epochs cfg"
  "batch_size (new_trainer cfg m) = batch_size cfg"
  "learning_rate (new_trainer cfg m) = learning_rate cfg"
  "seed (new_trainer cfg m) = seed cfg"
  by (simp_all add: new_trainer_def config.defs trainer.defs)

section \<open>Construction\<close>

text \<open>
  Claim C7. A \<open>warmup_proportion\<close> strictly below 0.0 or strictly above 1.0 makes the
  constructor raise the ValueError of line 105, whatever the other arguments are; with
  \<open>warmup_proportion\<close> in the closed interval from 0 to 1 and the model arguments valid
  (exactly one of \<open>model\<close> and \<open>model_init\<close>, and a \<open>model_init\<close> that builds a model),
  the constructor returns the trainer.
\<close>

theorem init_warmup_proportion:
  "(warmup_proportion cfg < 0 \<or> warmup_proportion cfg > 1 \<longrightarrow>
      init model_arg cfg = Inl (ValueError (WarmupProportionRange (warmup_proportion cfg))))
   \<and> (0 \<le> warmup_proportion cfg \<and> warmup_proportion cfg \<le> 1
        \<and> resolve_model model_arg cfg = Inr m \<longrightarrow>
      init model_arg cfg = Inr (new_trainer cfg m))"
  by (auto simp: init_def)

theorem init_warmup_proportion_witness:
  "init (Some classical_model) (sample_config\<lparr>warmup_proportion := 3 / 2\<rparr>)
     = Inl (ValueError (WarmupProportionRange (3 / 2)))
   \<and> init (Some classical_model) (sample_config\<lparr>warmup_proportion := - 1 / 2\<rparr>)
     = Inl (ValueError (WarmupProportionRange (- 1 / 2)))
   \<and> init (Some classical_model) (sample_config\<lparr>warmup_proportion := 0\<rparr>)
     = Inr (new_trainer (sample_config\<lparr>warmup_proportion := 0\<rparr>) classical_model)
   \<and> init (Some classical_model) (sample_config\<lparr>warmup_proportion := 1\<rparr>)
     = Inr (new_trainer (sample_config\<lparr>warmup_proportion := 1\<rparr>) classical_model)"
  using init_warmup_proportion
          [of "sample_config\<lparr>warmup_proportion := 3 / 2\<rparr>" "Some classical_model" classical_model]
        init_warmup_proportion
          [of "sample_config\<lparr>warmup_proportion := - 1 / 2\<rparr>" "Some classical_model" classical_model]
        init_warmup_proportion
          [of "sample_config\<lparr>warmup_proportion := 0\<rparr>" "Some classical_model" classical_model]
        init_warmup_proportion
          [of "sample_config\<lparr>warmup_proportion := 1\<rparr>" "Some classical_model" classical_model]
  by (simp add: resolve_model_def sample_config_def default_config_def)

section \<open>The trial setup\<close>

lemma trial_setup_inactive:
  "\<not> trial_truthy (arg_trial a) \<or> hp_search_backend self = None \<Longrightarrow>
     trial_setup E self a = (self, [], None)"
  by (auto simp: trial_setup_def hp_search_setup_def)

lemma apply_hyperparameter_events:
  "apply_hyperparameter E self kv = (s, evs, r) \<Longrightarrow>
     \<not> list_ex is_body_fit evs \<and> \<not> list_ex is_head_fit evs"
  by (auto simp: apply_hyperparameter_def split: prod.splits sum.splits option.splits if_splits)

lemma apply_loop_events:
  "apply_loop E self ps = (s, evs, r) \<Longrightarrow>
     \<not> list_ex is_body_fit evs \<and> \<not> list_ex is_head_fit evs"
proof (induction ps arbitrary: self s evs r)
  case Nil
  then show ?case by simp
next
  case (Cons kv rest)
  obtain s1 e1 r1 where st: "apply_hyperparameter E self kv = (s1, e1, r1)"
    by (cases "apply_hyperparameter E self kv") auto
  note ev1 = apply_hyperparameter_events [OF st]
  show ?case
  proof (cases r1)
    case (Some e)
    with Cons.prems st ev1 show ?thesis by simp
  next
    case None
    obtain s2 e2 r2 where lp: "apply_loop E s1 rest = (s2, e2, r2)"
      by (cases "apply_loop E s1 rest") auto
    from Cons.IH [OF lp] Cons.prems st None lp ev1 show ?thesis by auto
  qed
qed

lemma apply_hyperparameters_events:
  "apply_hyperparameters E self ps fm = (s, evs, r) \<Longrightarrow>
     \<not> list_ex is_body_fit evs \<and> \<not> list_ex is_head_fit evs"
  by (auto simp: apply_hyperparameters_def dest!: apply_loop_events
           split: prod.splits sum.splits option.splits if_splits)

lemma trial_setup_events:
  "trial_setup E self a = (s, evs, r) \<Longrightarrow>
     \<not> body_training_ran evs \<and> \<not> head_training_ran evs"
  unfolding body_training_ran_def head_training_ran_def
  by (auto simp: trial_setup_def hp_search_setup_def dest!: apply_hyperparameters_events
           split: prod.splits sum.splits option.splits if_splits trial.splits)

section \<open>Column validation\<close>

lemma validate_train_only:
  "set (column_names ds) = {''train''} \<Longrightarrow> isinstance_DatasetDict ds \<Longrightarrow>
   column_mapping self = None \<Longrightarrow>
     validate_column_mapping self ds = Inl (ValueError DatasetDictTrainSplit)"
  by (simp add: validate_column_mapping_def required_columns_def)

text \<open>
  Claim C3. When the training dataset is a \<open>DatasetDict\<close> whose set of split names is
  \<open>{train}\<close> and no column mapping is configured, \<open>train\<close> raises the ValueError of line
  159, whose message shows the split names of the container, and the run has made no fit
  call. The trainer the validation sees is the one the trial setup of lines 378 and 379
  leaves (the trainer itself when no trial is applied).
\<close>

theorem train_rejects_train_only_DatasetDict:
  assumes "trial_setup E self0 a = (self, evs, None)"
      and "train_dataset self = Some (DatasetDict d)"
      and "set (column_names (DatasetDict d)) = {''train''}"
      and "column_mapping self = None"
  shows "train E self0 a
           = (self, SetSeed (seed self0) # evs, Some (ValueError DatasetDictTrainSplit))
         \<and> splits_in_message (ValueError DatasetDictTrainSplit)
             = Some (set (column_names (DatasetDict d)))
         \<and> \<not> body_training_ran (SetSeed (seed self0) # evs)
         \<and> \<not> head_training_ran (SetSeed (seed self0) # evs)"
proof -
  have v: "validate_column_mapping self (DatasetDict d) = Inl (ValueError DatasetDictTrainSplit)"
    using assms(3,4) by (intro validate_train_only) simp_all
  have t: "train_columns self = Inl (ValueError DatasetDictTrainSplit)"
    using assms(2) v by (simp add: train_columns_def)
  have "train E self0 a
           = (self, SetSeed (seed self0) # evs, Some (ValueError DatasetDictTrainSplit))"
    using assms(1) t by (simp add: train_def)
  moreover have "\<not> body_training_ran (SetSeed (seed self0) # evs)
         \<and> \<not> head_training_ran (SetSeed (seed self0) # evs)"
    using trial_setup_events [OF assms(1)]
    by (simp add: body_training_ran_def head_training_ran_def)
  ultimately show ?thesis using assms(3) by simp
qed

theorem train_rejects_train_only_DatasetDict_witness:
  "train sample_env
     (new_trainer
        (sample_config\<lparr>train_dataset := Some (DatasetDict [(''train'', sample_table)])\<rparr>)
        classical_model)
     default_train_args
    = (new_trainer
         (sample_config\<lparr>train_dataset := Some (DatasetDict [(''train'', sample_table)])\<rparr>)
         classical_model,
       [SetSeed 42], Some (ValueError DatasetDictTrainSplit))
   \<and> splits_in_message (ValueError DatasetDictTrainSplit) = Some {''train''}"
proof -
  let ?s = "new_trainer
              (sample_config\<lparr>train_dataset := Some (DatasetDict [(''train'', sample_table)])\<rparr>)
              classical_model"
  have 1: "trial_setup sample_env ?s default_train_args = (?s, [], None)"
    by (rule trial_setup_inactive) (simp add: default_train_args_def)
  have 2: "train_dataset ?s = Some (DatasetDict [(''train'', sample_table)])"
    by (simp add: new_trainer_fields)
  have 3: "set (column_names (DatasetDict [(''train'', sample_table)])) = {''train''}"
    by simp
  have 4: "column_mapping ?s = None"
    by (simp add: new_trainer_fields sample_config_def default_config_def)
  have 5: "seed ?s = 42"
    by (simp add: new_trainer_fields sample_config_def default_config_def)
  from train_rejects_train_only_DatasetDict [OF 1 2 3 4] 5 show ?thesis by simp
qed

section \<open>The phases of a run\<close>

lemma head_phase_fields:
  "head_phase E self a m xt yt xs ys n b l = (self', evs) \<Longrightarrow>
     model self' = model self \<and> freeze_switch self' = freeze_switch self
     \<and> num_epochs self' = num_epochs self \<and> batch_size self' = batch_size self
     \<and> learning_rate self' = learning_rate self \<and> warmup_proportion self' = warmup_proportion self
     \<and> loss_class self' = loss_class self \<and> train_dataset self' = train_dataset self
     \<and> column_mapping self' = column_mapping self \<and> samples_per_label self' = samples_per_label self
     \<and> \<not> list_ex is_body_fit evs
     \<and> (list_ex is_head_fit evs \<longleftrightarrow> (\<not> has_differentiable_head m \<or> \<not> freeze_switch self))"
  by (auto simp: head_phase_def Let_def split: if_splits)

lemma body_training_loss_class_irrelevant:
  "body_training E (self\<lparr>loss_class := x\<rparr>) a m lc xt yt xs ys n b l
     = body_training E self a m lc xt yt xs ys n b l"
  by (simp add: body_training_def body_fit_def triplet_loss_def)

lemma run_phases_frame:
  assumes "run_phases E self a xt yt xs ys = (self', evs, r)"
  shows "model self' = model self \<and> freeze_switch self' = freeze_switch self
     \<and> num_epochs self' = num_epochs self \<and> batch_size self' = batch_size self
     \<and> learning_rate self' = learning_rate self \<and> warmup_proportion self' = warmup_proportion self
     \<and> train_dataset self' = train_dataset self
     \<and> column_mapping self' = column_mapping self \<and> samples_per_label self' = samples_per_label self
     \<and> loss_class self' = Some (case loss_class self of None \<Rightarrow> CosineSimilarityLoss | Some c \<Rightarrow> c)"
  using assms
  unfolding run_phases_def Let_def
  by (auto split: option.splits if_splits sum.splits prod.splits dest!: head_phase_fields)

lemma run_phases_guards:
  assumes "run_phases E self a xt yt xs ys = (self', evs, None)"
  shows "\<exists>m. model self = Some m
            \<and> (body_training_ran evs \<longleftrightarrow> (\<not> has_differentiable_head m \<or> freeze_switch self))
            \<and> (head_training_ran evs \<longleftrightarrow> (\<not> has_differentiable_head m \<or> \<not> freeze_switch self))"
  using assms
  unfolding run_phases_def body_training_ran_def head_training_ran_def Let_def
  by (auto split: option.splits if_splits sum.splits prod.splits dest!: head_phase_fields)


lemma head_phase_no_body_fit:
  "head_phase E self a m xt yt xs ys n b l = (self', evs) \<Longrightarrow> BodyFit c \<notin> set evs"
  by (auto simp: head_phase_def Let_def split: if_splits)

lemma run_phases_body_fit:
  assumes "run_phases E self a xt yt xs ys = (self', evs, r)" and "BodyFit c \<in> set evs"
  shows "\<exists>m b. model self = Some m \<and>
           body_training E self a m (case loss_class self of None \<Rightarrow> CosineSimilarityLoss | Some c \<Rightarrow> c)
             xt yt xs ys
             (or_int (arg_num_epochs a) (num_epochs self))
             (or_int (arg_batch_size a) (batch_size self))
             (or_float (arg_learning_rate a) (learning_rate self)) = Inr (c, b)"
  using assms
  unfolding run_phases_def Let_def
  by (auto simp: body_training_loss_class_irrelevant
           split: option.splits if_splits sum.splits prod.splits dest: head_phase_no_body_fit)

lemma train_reaches_phases:
  assumes "train E self0 a = (self, evs, r)"
      and "r = None \<or> list_ex is_body_fit evs \<or> list_ex is_head_fit evs"
  shows "\<exists>s1 e1 xt yt xs ys e2.
           trial_setup E self0 a = (s1, e1, None) \<and> train_columns s1 = Inr (xt, yt)
           \<and> eval_columns s1 = Inr (xs, ys) \<and> run_phases E s1 a xt yt xs ys = (self, e2, r)
           \<and> evs = SetSeed (seed self0) # e1 @ e2
           \<and> \<not> list_ex is_body_fit e1 \<and> \<not> list_ex is_head_fit e1"
proof -
  obtain s1 e1 r1 where ts: "trial_setup E self0 a = (s1, e1, r1)"
    by (cases "trial_setup E self0 a") auto
  note nf = trial_setup_events [OF ts, unfolded body_training_ran_def head_training_ran_def]
  show ?thesis
    using assms ts nf
    by (auto simp: train_def split: option.splits sum.splits prod.splits)
qed

text \<open>
  Claim C2. A call of \<open>train\<close> that returns has run the body-training phase exactly when
  the model's head is not differentiable or the freeze switch is true, and the
  head-training phase exactly when the head is not differentiable or the switch is
  false; so a model without a differentiable head gets both phases in one call, whatever
  the switch. The model and the switch are those the guards read: the ones the trial
  setup leaves, which are those of the start of the call when no trial is applied. (A
  call that raises stops where it raises; every raise of \<open>train\<close> comes before a fit
  call is recorded.)
\<close>

theorem train_phase_guards:
  assumes "train E self0 a = (self, evs, None)"
  shows "\<exists>m. model self = Some m
     \<and> (body_training_ran evs \<longleftrightarrow> (\<not> has_differentiable_head m \<or> freeze_switch self))
     \<and> (head_training_ran evs \<longleftrightarrow> (\<not> has_differentiable_head m \<or> \<not> freeze_switch self))
     \<and> (\<not> has_differentiable_head m \<longrightarrow> body_training_ran evs \<and> head_training_ran evs)
     \<and> (trial_setup E self0 a = (self0, [], None) \<longrightarrow>
          model self = model self0 \<and> freeze_switch self = freeze_switch self0)"
proof -
  from train_reaches_phases [OF assms] obtain s1 e1 xt yt xs ys e2 where
    ts: "trial_setup E self0 a = (s1, e1, None)" and
    rp: "run_phases E s1 a xt yt xs ys = (self, e2, None)" and
    ev: "evs = SetSeed (seed self0) # e1 @ e2" and
    nf: "\<not> list_ex is_body_fit e1" "\<not> list_ex is_head_fit e1"
    by auto
  from run_phases_frame [OF rp] have fr: "model self = model s1" "freeze_switch self = freeze_switch s1"
    by simp_all
  from run_phases_guards [OF rp] obtain m where
    m: "model s1 = Some m"
       "body_training_ran e2 \<longleftrightarrow> (\<not> has_differentiable_head m \<or> freeze_switch s1)"
       "head_training_ran e2 \<longleftrightarrow> (\<not> has_differentiable_head m \<or> \<not> freeze_switch s1)"
    by auto
  have b: "body_training_ran evs \<longleftrightarrow> body_training_ran e2"
    using ev nf by (simp add: body_training_ran_def)
  have h: "head_training_ran evs \<longleftrightarrow> head_training_ran e2"
    using ev nf by (simp add: head_training_ran_def)
  show ?thesis using fr m b h ts by auto
qed

theorem train_phase_guards_witness:
  "snd (snd (train sample_env sample_trainer default_train_args)) = None
   \<and> body_training_ran (fst (snd (train sample_env sample_trainer default_train_args)))
   \<and> head_training_ran (fst (snd (train sample_env sample_trainer default_train_args)))
   \<and> snd (snd (train sample_env differentiable_trainer default_train_args)) = None
   \<and> body_training_ran (fst (snd (train sample_env differentiable_trainer default_train_args)))
   \<and> \<not> head_training_ran (fst (snd (train sample_env differentiable_trainer default_train_args)))"
proof -
  let ?r = "train sample_env sample_trainer default_train_args"
  let ?d = "train sample_env differentiable_trainer default_train_args"
  have ok: "snd (snd ?r) = None" by code_simp
  then have eq: "?r = (fst ?r, fst (snd ?r), None)"
    by (metis prod.collapse)
  have ts: "trial_setup sample_env sample_trainer default_train_args = (sample_trainer, [], None)"
    by (rule trial_setup_inactive) (simp add: default_train_args_def)
  have m0: "model sample_trainer = Some classical_model"
    by (simp add: sample_trainer_def new_trainer_fields)
  have nd: "\<not> has_differentiable_head classical_model"
    by (simp add: classical_model_def)
  have okd: "snd (snd ?d) = None" by code_simp
  then have eqd: "?d = (fst ?d, fst (snd ?d), None)"
    by (metis prod.collapse)
  have tsd: "trial_setup sample_env differentiable_trainer default_train_args
               = (differentiable_trainer, [], None)"
    by (rule trial_setup_inactive) (simp add: default_train_args_def)
  have md: "model differentiable_trainer = Some differentiable_model"
       "freeze_switch differentiable_trainer"
    by (simp_all add: differentiable_trainer_def new_trainer_fields)
  have dd: "has_differentiable_head differentiable_model"
    by (simp add: differentiable_model_def)
  from train_phase_guards [OF eq] train_phase_guards [OF eqd] ts m0 nd tsd md dd ok okd
  show ?thesis by auto
qed

section \<open>The evaluation dataset in training\<close>

lemma init_Inr:
  "init model_arg cfg = Inr self \<Longrightarrow> \<exists>m. self = new_trainer cfg m"
  by (auto simp: init_def split: if_splits sum.splits)

text \<open>
  Claim C8. The constructor accepts \<open>eval_dataset = None\<close>; on the trainer it returns,
  every call of \<open>train\<close> raises and makes no fit call, and when the training dataset is
  valid (its columns are read) the exception is the TypeError of indexing \<open>None\<close> on
  line 394.
\<close>

theorem train_requires_eval_dataset:
  assumes "init model_arg cfg = Inr self" and "eval_dataset cfg = None"
  shows "snd (snd (train E self a)) \<noteq> None
         \<and> \<not> body_training_ran (fst (snd (train E self a)))
         \<and> \<not> head_training_ran (fst (snd (train E self a)))
         \<and> (\<forall>xy. train_columns self = Inr xy \<longrightarrow>
               train E self a
                 = (self, [SetSeed (seed self)],
                    Some (TypeError (Msg ''NoneType object is not subscriptable''))))"
proof -
  from init_Inr [OF assms(1)] obtain m where s: "self = new_trainer cfg m" by auto
  have ts: "trial_setup E self a = (self, [], None)"
    by (rule trial_setup_inactive) (simp add: s new_trainer_fields)
  have ec: "eval_columns self = Inl (TypeError (Msg ''NoneType object is not subscriptable''))"
    using assms(2) by (simp add: eval_columns_def s new_trainer_fields)
  show ?thesis
    using ts ec
    by (auto simp: train_def body_training_ran_def head_training_ran_def split: sum.splits)
qed

theorem train_requires_eval_dataset_witness:
  "init (Some classical_model) no_eval_config = Inr (new_trainer no_eval_config classical_model)
   \<and> eval_dataset no_eval_config = None
   \<and> train sample_env (new_trainer no_eval_config classical_model) default_train_args
       = (new_trainer no_eval_config classical_model, [SetSeed 42],
          Some (TypeError (Msg ''NoneType object is not subscriptable'')))"
proof -
  let ?s = "new_trainer no_eval_config classical_model"
  have i: "init (Some classical_model) no_eval_config = Inr ?s"
    by (simp add: init_def resolve_model_def no_eval_config_def sample_config_def default_config_def)
  have e: "eval_dataset no_eval_config = None"
    by (simp add: no_eval_config_def)
  have c: "\<exists>xy. train_columns ?s = Inr xy"
    by (simp add: train_columns_def new_trainer_fields no_eval_config_def sample_config_def
          default_config_def validate_column_mapping_def required_columns_def sample_table_def)
  have sd: "seed ?s = 42"
    by (simp add: new_trainer_fields no_eval_config_def sample_config_def default_config_def)
  from train_requires_eval_dataset [OF i e, of sample_env default_train_args] c sd i e
  show ?thesis by auto
qed

section \<open>The body fit\<close>

lemma body_training_call:
  assumes "body_training E self a m lc xt yt xs ys n b l = Inr (c, b')"
  shows "bf_epochs c = n \<and> bf_lr c = l
         \<and> bf_warmup_steps c
             = \<lceil>int_times_float E (len_dataloader (bf_train_dataloader c) * n) (warmup_proportion self)\<rceil>"
  using assms
  by (auto simp: body_training_def body_fit_def Let_def math_ceil_def DataLoader_def
           split: if_splits)

lemma train_body_fit:
  assumes "train E self0 a = (self, evs, r)" and "BodyFit c \<in> set evs"
  shows "\<exists>s1 e1 xt yt xs ys m b.
           trial_setup E self0 a = (s1, e1, None) \<and> train_columns s1 = Inr (xt, yt)
           \<and> eval_columns s1 = Inr (xs, ys) \<and> model s1 = Some m
           \<and> body_training E s1 a m
                (case loss_class s1 of None \<Rightarrow> CosineSimilarityLoss | Some c \<Rightarrow> c)
                xt yt xs ys
                (or_int (arg_num_epochs a) (num_epochs s1))
                (or_int (arg_batch_size a) (batch_size s1))
                (or_float (arg_learning_rate a) (learning_rate s1)) = Inr (c, b)
           \<and> num_epochs self = num_epochs s1 \<and> batch_size self = batch_size s1
           \<and> learning_rate self = learning_rate s1
           \<and> warmup_proportion self = warmup_proportion s1
           \<and> samples_per_label self = samples_per_label s1
           \<and> train_dataset self = train_dataset s1 \<and> column_mapping self = column_mapping s1
           \<and> loss_class self
                = Some (case loss_class s1 of None \<Rightarrow> CosineSimilarityLoss | Some c \<Rightarrow> c)"
proof -
  have "list_ex is_body_fit evs"
    using assms(2) by (auto simp: list_ex_iff intro!: bexI [of _ "BodyFit c"])
  with train_reaches_phases [OF assms(1)] obtain s1 e1 xt yt xs ys e2 where
    ts: "trial_setup E self0 a = (s1, e1, None)" "train_columns s1 = Inr (xt, yt)"
        "eval_columns s1 = Inr (xs, ys)" and
    rp: "run_phases E s1 a xt yt xs ys = (self, e2, r)" and
    ev: "evs = SetSeed (seed self0) # e1 @ e2" and
    nf: "\<not> list_ex is_body_fit e1"
    by auto
  have "BodyFit c \<notin> set e1"
    using nf by (auto simp: list_ex_iff)
  with assms(2) ev have mem: "BodyFit c \<in> set e2" by auto
  from run_phases_body_fit [OF rp mem] run_phases_frame [OF rp] ts show ?thesis
    by auto
qed

text \<open>
  Claim C5. In every run of \<open>train\<close>, the call of the body fit is given the resolved
  number of epochs, and its \<open>warmup_steps\<close> is the ceiling of the product (as the
  interpreter computes it) of the total number of steps and \<open>warmup_proportion\<close>, where
  the total is the number of batches per epoch of the training dataloader (its \<open>len\<close>)
  times the resolved number of epochs.
\<close>

theorem body_fit_warmup_steps:
  assumes "train E self0 a = (self, evs, r)" and "BodyFit c \<in> set evs"
  shows "bf_epochs c = or_int (arg_num_epochs a) (num_epochs self)
         \<and> bf_warmup_steps c
             = \<lceil>int_times_float E
                  (len_dataloader (bf_train_dataloader c)
                     * or_int (arg_num_epochs a) (num_epochs self))
                  (warmup_proportion self)\<rceil>"
proof -
  from train_body_fit [OF assms] obtain s1 m lc xt yt xs ys bs l b where
    bt: "body_training E s1 a m lc xt yt xs ys (or_int (arg_num_epochs a) (num_epochs s1)) bs l
           = Inr (c, b)" and
    fr: "num_epochs self = num_epochs s1" "warmup_proportion self = warmup_proportion s1"
    by blast
  from body_training_call [OF bt] fr show ?thesis by simp
qed

theorem body_fit_warmup_steps_witness:
  "BodyFit sample_body_fit \<in> set (fst (snd sample_run))
   \<and> bf_epochs sample_body_fit = or_int (arg_num_epochs default_train_args) (num_epochs (fst sample_run))
   \<and> bf_warmup_steps sample_body_fit
       = \<lceil>int_times_float sample_env
            (len_dataloader (bf_train_dataloader sample_body_fit)
               * or_int (arg_num_epochs default_train_args) (num_epochs (fst sample_run)))
            (warmup_proportion (fst sample_run))\<rceil>
   \<and> len_dataloader (bf_train_dataloader sample_body_fit) = 1
   \<and> bf_epochs sample_body_fit = 1
   \<and> bf_warmup_steps sample_body_fit = 1"
proof -
  have run: "train sample_env sample_trainer default_train_args
               = (fst sample_run, fst (snd sample_run), snd (snd sample_run))"
    by (simp add: sample_run_def)
  have mem: "BodyFit sample_body_fit \<in> set (fst (snd sample_run))"
    by code_simp
  have vals: "len_dataloader (bf_train_dataloader sample_body_fit) = 1"
       "bf_epochs sample_body_fit = 1" "bf_warmup_steps sample_body_fit = 1"
    by code_simp+
  note th = body_fit_warmup_steps [OF run mem]
  from conjunct1 [OF th] conjunct2 [OF th] mem vals show ?thesis
    by (intro conjI) assumption+
qed

section \<open>The per-call overrides\<close>

lemma or_int_simps:
  "or_int None c = c" "or_int (Some 0) c = c" "v \<noteq> 0 \<Longrightarrow> or_int (Some v) c = v"
  by (simp_all add: or_int_def)

lemma or_float_simps:
  "or_float None c = c" "or_float (Some 0) c = c" "v \<noteq> 0 \<Longrightarrow> or_float (Some v) c = v"
  by (simp_all add: or_float_def)

text \<open>
  Claim C1, evaluated where it fails. With the overrides \<open>num_epochs = 0\<close>,
  \<open>batch_size = 0\<close> and \<open>learning_rate = 0.0\<close>, none of them \<open>None\<close>, the run uses the
  values configured at construction (1, 16 and 2e-5): \<open>or\<close> on lines 401 to 403 takes a
  zero override for a missing one.
\<close>

theorem train_zero_overrides_use_configured:
  "arg_num_epochs zero_override_args = Some 0
   \<and> arg_batch_size zero_override_args = Some 0
   \<and> arg_learning_rate zero_override_args = Some 0
   \<and> num_epochs sample_trainer = 1 \<and> batch_size sample_trainer = 16
   \<and> learning_rate sample_trainer = 2 / 100000
   \<and> snd (snd zero_override_run) = None
   \<and> map bf_epochs (body_fit_calls (fst (snd zero_override_run))) = [1]
   \<and> map bf_lr (body_fit_calls (fst (snd zero_override_run))) = [2 / 100000]
   \<and> map hf_num_epochs (head_fit_calls (fst (snd zero_override_run))) = [1]
   \<and> map hf_batch_size (head_fit_calls (fst (snd zero_override_run))) = [16]
   \<and> map hf_learning_rate (head_fit_calls (fst (snd zero_override_run))) = [2 / 100000]"
  by code_simp

section \<open>The freeze switch over the trainer's operations\<close>


























section \<open>Applying hyperparameters\<close>

lemma apply_learning_rate:
  assumes "py_float E v = Inr x"
  shows "learning_rate (fst (apply_hyperparameters E s [(''learning_rate'', v)] fm)) = x"
proof -
  have h: "hasattr s ''learning_rate''"
    by (simp add: hasattr_def scalar_attributes_def)
  have "apply_loop E s [(''learning_rate'', v)] = (s\<lparr>learning_rate := x\<rparr>, [], None)"
    using assms h by (simp add: apply_hyperparameter_def cast_and_setattr_def on_result_def)
  then show ?thesis
    by (auto simp: apply_hyperparameters_def split: option.splits sum.splits)
qed

text \<open>
  Claim C4. \<open>apply_hyperparameters\<close> with \<open>learning_rate\<close> given as the string 0.01 stores
  in the trainer's \<open>learning_rate\<close> the float that \<open>float\<close> makes of the string, 0.01
  (the attribute stays set even when the later call of \<open>model_init\<close> raises). A key
  that names no attribute of the trainer, when \<open>model_init\<close> takes no argument, logs a
  warning for that key and leaves the trainer as it was.
\<close>

theorem apply_hyperparameters_coerces_and_warns:
  "(py_float E (PStr ''0.01'') = Inr (1 / 100) \<longrightarrow>
      learning_rate (fst (apply_hyperparameters E s [(''learning_rate'', PStr ''0.01'')] fm))
        = 1 / 100)
   \<and> (\<not> hasattr s key \<and> model_init s = Some mi \<and> number_of_arguments mi = 0 \<longrightarrow>
        apply_hyperparameter E s (key, v) = (s, [LogWarning key], None)
        \<and> apply_loop E s [(key, v)] = (s, [LogWarning key], None)
        \<and> fst (snd (apply_hyperparameters E s [(key, v)] fm)) = [LogWarning key])"
proof (intro conjI impI)
  show "learning_rate (fst (apply_hyperparameters E s [(''learning_rate'', PStr ''0.01'')] fm))
        = 1 / 100" if "py_float E (PStr ''0.01'') = Inr (1 / 100)"
    using that by (rule apply_learning_rate)
  assume h: "\<not> hasattr s key \<and> model_init s = Some mi \<and> number_of_arguments mi = 0"
  then show st: "apply_hyperparameter E s (key, v) = (s, [LogWarning key], None)"
    by (simp add: apply_hyperparameter_def)
  then show lp: "apply_loop E s [(key, v)] = (s, [LogWarning key], None)"
    by simp
  then show "fst (snd (apply_hyperparameters E s [(key, v)] fm)) = [LogWarning key]"
    by (auto simp: apply_hyperparameters_def split: option.splits sum.splits)
qed

theorem apply_hyperparameters_coerces_and_warns_witness:
  "py_float sample_env (PStr ''0.01'') = Inr (1 / 100)
   \<and> learning_rate (fst (apply_hyperparameters sample_env sample_trainer
                            [(''learning_rate'', PStr ''0.01'')] False)) = 1 / 100
   \<and> \<not> hasattr zero_arg_trainer ''dropout''
   \<and> model_init zero_arg_trainer = Some zero_arg_model_init
   \<and> number_of_arguments zero_arg_model_init = 0
   \<and> apply_loop sample_env zero_arg_trainer [(''dropout'', PFloat (1 / 2))]
       = (zero_arg_trainer, [LogWarning ''dropout''], None)"
proof -
  have p: "py_float sample_env (PStr ''0.01'') = Inr (1 / 100)"
    by code_simp
  have h: "\<not> hasattr zero_arg_trainer ''dropout''"
    by (simp add: hasattr_def scalar_attributes_def object_attributes_def method_names_def
          inherited_attributes_def zero_arg_trainer_def new_trainer_fields)
  have mi: "model_init zero_arg_trainer = Some zero_arg_model_init"
    by (simp add: zero_arg_trainer_def new_trainer_def config.defs trainer.defs)
  have n: "number_of_arguments zero_arg_model_init = 0"
    by (simp add: zero_arg_model_init_def)
  note th = apply_hyperparameters_coerces_and_warns
    [where E = sample_env and s = sample_trainer and fm = False]
  note th2 = apply_hyperparameters_coerces_and_warns
    [where E = sample_env and s = zero_arg_trainer and key = "''dropout''"
       and mi = zero_arg_model_init and v = "PFloat (1 / 2)"]
  from th p have
    "learning_rate (fst (apply_hyperparameters sample_env sample_trainer
                            [(''learning_rate'', PStr ''0.01'')] False)) = 1 / 100"
    by blast
  moreover from th2 h mi n have
    "apply_loop sample_env zero_arg_trainer [(''dropout'', PFloat (1 / 2))]
       = (zero_arg_trainer, [LogWarning ''dropout''], None)"
    by blast
  ultimately show ?thesis using p h mi n by simp
qed

section \<open>Column mapping in training and in evaluation\<close>






section \<open>Label-grouped batches\<close>

declare batches.simps [simp del]

lemma batches_full:
  "x \<in> set (batches True b xs) \<Longrightarrow> length x = b"
proof (induction True b xs rule: batches.induct)
  case (1 b xs)
  show ?case
  proof (cases "xs = [] \<or> b = 0")
    case True
    with "1.prems" show ?thesis by (simp add: batches.simps [of True b xs])
  next
    case False
    show ?thesis
    proof (cases "length xs < b")
      case True
      with False "1.prems" show ?thesis by (simp add: batches.simps [of True b xs])
    next
      case ge: False
      with False "1.prems" have "x = take b xs \<or> x \<in> set (batches True b (drop b xs))"
        by (simp add: batches.simps [of True b xs])
      then show ?thesis
      proof
        assume "x = take b xs"
        with ge show ?thesis by simp
      next
        assume "x \<in> set (batches True b (drop b xs))"
        with "1.hyps" False ge show ?thesis by simp
      qed
    qed
  qed
qed

lemma batches_total:
  "length (concat (batches True b xs)) = b * (length xs div b)"
proof (induction True b xs rule: batches.induct)
  case (1 b xs)
  show ?case
  proof (cases "xs = [] \<or> b = 0")
    case True
    then show ?thesis by (auto simp: batches.simps [of True b xs])
  next
    case False
    show ?thesis
    proof (cases "length xs < b")
      case True
      with False show ?thesis by (simp add: batches.simps [of True b xs])
    next
      case ge: False
      with False "1" have ih:
        "length (concat (batches True b (drop b xs))) = b * (length (drop b xs) div b)"
        by simp
      have dv: "length xs div b = Suc ((length xs - b) div b)"
        using ge False by (simp add: le_div_geq)
      have "length (concat (batches True b xs))
              = b + length (concat (batches True b (drop b xs)))"
        using ge False by (simp add: batches.simps [of True b xs])
      with ih dv show ?thesis by simp
    qed
  qed
qed

lemma distinct_below_length:
  assumes "distinct (is :: nat list)" and "\<forall>i \<in> set is. i < n"
  shows "length is \<le> n"
proof -
  have "card (set is) \<le> card {..<n}"
    using assms(2) by (intro card_mono) auto
  with assms(1) show ?thesis by (simp add: distinct_card)
qed

lemma label_group_labels:
  "ex \<in> set (label_group examples spl L picks) \<Longrightarrow> label ex = L"
proof -
  assume "ex \<in> set (label_group examples spl L picks)"
  then obtain i where "i < length (filter (\<lambda>ex. label ex = L) examples)"
    and "ex = filter (\<lambda>ex. label ex = L) examples ! i"
    by (auto simp: label_group_def Let_def dest!: in_set_takeD)
  then have "ex \<in> set (filter (\<lambda>ex. label ex = L) examples)"
    by (metis nth_mem)
  then show ?thesis by simp
qed

lemma label_group_length:
  "length (label_group examples spl L picks) \<le> length (filter (\<lambda>ex. label ex = L) examples)"
proof -
  let ?same = "filter (\<lambda>ex. label ex = L) examples"
  let ?is = "take (nat spl) (remdups (filter (\<lambda>i. i < length ?same) picks))"
  have d: "distinct ?is" by simp
  have "\<forall>i \<in> set ?is. i < length ?same"
    by (auto dest!: in_set_takeD)
  from distinct_below_length [OF d this] show ?thesis
    by (simp add: label_group_def Let_def)
qed

lemma label_group_bound:
  "length (filter (\<lambda>ex. label ex = L') (label_group examples spl L picks))
     \<le> length (filter (\<lambda>ex. label ex = L') examples)"
proof (cases "L' = L")
  case True
  have "length (filter (\<lambda>ex. label ex = L) (label_group examples spl L picks))
          \<le> length (label_group examples spl L picks)"
    by (rule length_filter_le)
  with label_group_length [of examples spl L picks] have
    "length (filter (\<lambda>ex. label ex = L) (label_group examples spl L picks))
       \<le> length (filter (\<lambda>ex. label ex = L) examples)"
    by linarith
  with True show ?thesis by (simp only:)
next
  case False
  have "filter (\<lambda>ex. label ex = L') (label_group examples spl L picks) = []"
    using False by (auto simp: filter_empty_conv dest: label_group_labels)
  then show ?thesis by simp
qed

lemma label_group_size:
  "int (length (label_group examples spl L picks)) \<le> max 0 spl"
  by (simp add: label_group_def Let_def)

lemma body_training_triplet:
  assumes "lc \<in> set triplet_family"
      and "body_training E self a m lc xt yt xs ys n bs l = Inr (c, b')"
  shows "bf_train_dataloader c
           = \<lparr> dl_data = LabelSampler
                           (SentenceLabelDataset E (make_examples xt yt) (samples_per_label self)),
               dl_batch_size = min bs (int (sampler_len E (make_examples xt yt)
                                              (samples_per_label self))),
               dl_shuffle = False, dl_drop_last = True \<rparr>
         \<and> 0 < dl_batch_size (bf_train_dataloader c)
         \<and> b' = dl_batch_size (bf_train_dataloader c)"
  using assms
  by (auto simp: body_training_def body_fit_def Let_def DataLoader_def SentenceLabelDataset_def
           split: if_splits)

lemma validate_column_mapping_cong:
  assumes "column_mapping s = column_mapping s'"
  shows "validate_column_mapping s ds = validate_column_mapping s' ds"
  unfolding validate_column_mapping_def assms ..

lemma train_columns_cong:
  assumes "train_dataset s = train_dataset s'" and "column_mapping s = column_mapping s'"
  shows "train_columns s = train_columns s'"
  unfolding train_columns_def assms validate_column_mapping_cong [OF assms(2)] ..

text \<open>
  Claim C6. When the body-training phase runs with a triplet-family or
  supervised-contrastive loss, the training loader is built over the label-grouped
  sampler of all training examples, with \<open>drop_last\<close> set and with the minimum of the
  resolved batch size and the sampler's example count as its batch size. Whatever
  stream the sampler yields in an epoch, every batch has exactly that size (a trailing
  partial batch is dropped, nothing is padded), so the number of examples consumed is a
  multiple of it; and no group of the sampler holds more examples of a label than the
  dataset has of that label.
\<close>

theorem triplet_family_batches:
  assumes run: "train E self0 a = (self, evs, r)" and fit: "BodyFit c \<in> set evs"
      and lc: "loss_class self = Some lc" and fam: "lc \<in> set triplet_family"
  shows "\<exists>sld x_train y_train.
           dl_data (bf_train_dataloader c) = LabelSampler sld
           \<and> train_columns self = Inr (x_train, y_train)
           \<and> sl_examples sld = make_examples x_train y_train
           \<and> sl_samples_per_label sld = samples_per_label self
           \<and> dl_batch_size (bf_train_dataloader c)
               = min (or_int (arg_batch_size a) (batch_size self)) (int (sl_len sld))
           \<and> dl_drop_last (bf_train_dataloader c)
           \<and> (\<forall>stream :: input_example list.
                 (\<forall>b \<in> set (iter_batches (bf_train_dataloader c) stream).
                    int (length b) = dl_batch_size (bf_train_dataloader c))
                 \<and> dl_batch_size (bf_train_dataloader c)
                     dvd int (length (concat (iter_batches (bf_train_dataloader c) stream))))
           \<and> (\<forall>L picks L'.
                 length (filter (\<lambda>ex. label ex = L')
                           (label_group (sl_examples sld) (sl_samples_per_label sld) L picks))
                   \<le> length (filter (\<lambda>ex. label ex = L') (sl_examples sld)))"
proof -
  from train_body_fit [OF run fit] obtain s1 xt yt xs ys m b where
    tc: "train_columns s1 = Inr (xt, yt)" and
    bt: "body_training E s1 a m
           (case loss_class s1 of None \<Rightarrow> CosineSimilarityLoss | Some c \<Rightarrow> c)
           xt yt xs ys
           (or_int (arg_num_epochs a) (num_epochs s1))
           (or_int (arg_batch_size a) (batch_size s1))
           (or_float (arg_learning_rate a) (learning_rate s1)) = Inr (c, b)" and
    fr: "batch_size self = batch_size s1" "samples_per_label self = samples_per_label s1"
        "train_dataset self = train_dataset s1" "column_mapping self = column_mapping s1"
        "loss_class self
           = Some (case loss_class s1 of None \<Rightarrow> CosineSimilarityLoss | Some c \<Rightarrow> c)"
    by blast
  from fr(5) lc have eff: "(case loss_class s1 of None \<Rightarrow> CosineSimilarityLoss | Some c \<Rightarrow> c) = lc"
    by simp
  let ?sld = "SentenceLabelDataset E (make_examples xt yt) (samples_per_label s1)"
  let ?dl = "bf_train_dataloader c"
  note btt = body_training_triplet [OF fam bt [unfolded eff]]
  from btt have
    dl: "?dl = \<lparr> dl_data = LabelSampler ?sld,
                  dl_batch_size = min (or_int (arg_batch_size a) (batch_size s1))
                                    (int (sampler_len E (make_examples xt yt)
                                            (samples_per_label s1))),
                  dl_shuffle = False, dl_drop_last = True \<rparr>"
    by (rule conjunct1)
  from btt have pos: "0 < dl_batch_size ?dl"
    by blast
  have 1: "dl_data ?dl = LabelSampler ?sld" by (subst dl) simp
  have 2: "train_columns self = Inr (xt, yt)"
    using train_columns_cong [OF fr(3,4)] tc by simp
  have 3: "sl_examples ?sld = make_examples xt yt"
    by (simp add: SentenceLabelDataset_def)
  have 4: "sl_samples_per_label ?sld = samples_per_label self"
    by (simp add: SentenceLabelDataset_def fr)
  have 5: "dl_batch_size ?dl = min (or_int (arg_batch_size a) (batch_size self)) (int (sl_len ?sld))"
    by (subst dl) (simp add: SentenceLabelDataset_def fr)
  have 6: "dl_drop_last ?dl" by (subst dl) simp
  have 7: "(\<forall>b \<in> set (iter_batches ?dl stream). int (length b) = dl_batch_size ?dl)
           \<and> dl_batch_size ?dl dvd int (length (concat (iter_batches ?dl stream)))"
    for stream :: "input_example list"
  proof -
    have ib: "iter_batches ?dl stream = batches True (nat (dl_batch_size ?dl)) stream"
      using 6 by (simp add: iter_batches_def)
    have "int (length x) = dl_batch_size ?dl" if "x \<in> set (iter_batches ?dl stream)" for x
      using that pos batches_full [of x "nat (dl_batch_size ?dl)" stream] by (simp add: ib)
    moreover have "dl_batch_size ?dl dvd int (length (concat (iter_batches ?dl stream)))"
    proof -
      have "int (length (concat (iter_batches ?dl stream)))
              = dl_batch_size ?dl * int (length stream div nat (dl_batch_size ?dl))"
        using pos by (simp add: ib batches_total)
      then show ?thesis by simp
    qed
    ultimately show ?thesis by blast
  qed
  have 8: "length (filter (\<lambda>ex. label ex = L')
                     (label_group (sl_examples ?sld) (sl_samples_per_label ?sld) L picks))
             \<le> length (filter (\<lambda>ex. label ex = L') (sl_examples ?sld))" for L picks L'
    by (rule label_group_bound)
  from 1 2 3 4 5 6 7 8 show ?thesis by blast
qed

theorem triplet_family_batches_witness:
  "BodyFit triplet_body_fit \<in> set (fst (snd triplet_run))
   \<and> loss_class (fst triplet_run) = Some BatchAllTripletLoss
   \<and> BatchAllTripletLoss \<in> set triplet_family
   \<and> dl_batch_size (bf_train_dataloader triplet_body_fit) = 4
   \<and> dl_drop_last (bf_train_dataloader triplet_body_fit)
   \<and> length triplet_stream = 6
   \<and> map length (iter_batches (bf_train_dataloader triplet_body_fit) triplet_stream) = [4]
   \<and> dl_batch_size (bf_train_dataloader triplet_body_fit)
       dvd int (length (concat (iter_batches (bf_train_dataloader triplet_body_fit)
                                  triplet_stream)))"
proof -
  have run: "train sample_env triplet_trainer default_train_args
               = (fst triplet_run, fst (snd triplet_run), snd (snd triplet_run))"
    by (simp add: triplet_run_def)
  have mem: "BodyFit triplet_body_fit \<in> set (fst (snd triplet_run))"
    by code_simp
  have lc: "loss_class (fst triplet_run) = Some BatchAllTripletLoss"
    by code_simp
  have fam: "BatchAllTripletLoss \<in> set triplet_family"
    by (simp add: triplet_family_def)
  have vals: "dl_batch_size (bf_train_dataloader triplet_body_fit) = 4"
       "dl_drop_last (bf_train_dataloader triplet_body_fit)"
       "length triplet_stream = 6"
       "map length (iter_batches (bf_train_dataloader triplet_body_fit) triplet_stream) = [4]"
    by code_simp+
  from triplet_family_batches [OF run mem lc fam] have
    "dl_batch_size (bf_train_dataloader triplet_body_fit)
       dvd int (length (concat (iter_batches (bf_train_dataloader triplet_body_fit)
                                  triplet_stream)))"
    by blast
  with mem lc fam vals show ?thesis
    by (intro conjI) assumption+
qed

end
